theory Spec2Isabelle
  imports Complex_Main
begin

section \<open>Values of the Python program\<close>

text \<open>
  The program is \<^verbatim>\<open>src/main.py\<close>, a tool server in front of a remote generation
  service. Everything it receives (tool arguments, decoded response bodies) is a value
  produced by \<^verbatim>\<open>json.loads\<close>: \<^verbatim>\<open>None\<close>, a bool, an int, a float, a str, a list or
  a dict with string keys. A dict keeps its insertion order, which \<^verbatim>\<open>json.dumps\<close>
  prints, so it is an association list here; a lookup takes the first binding of a key.
  A float is represented by the rational it denotes. A str is a list of characters with
  code points below 256.
\<close>

datatype json =
    JNull
  | JBool bool
  | JInt int
  | JFloat rat
  | JStr string
  | JArr "json list"
  | JObj "(string \<times> json) list"

type_synonym dict = "(string \<times> json) list"

text \<open>\<^verbatim>\<open>d.get(k, default)\<close> and \<^verbatim>\<open>d.get(k)\<close>, whose default is \<^verbatim>\<open>None\<close>.\<close>

definition get_or :: "dict \<Rightarrow> string \<Rightarrow> json \<Rightarrow> json" where
  "get_or d k dflt = (case map_of d k of Some v \<Rightarrow> v | None \<Rightarrow> dflt)"

definition get :: "dict \<Rightarrow> string \<Rightarrow> json" where
  "get d k = get_or d k JNull"

text \<open>Truth value testing, as \<^verbatim>\<open>if v:\<close> and \<^verbatim>\<open>if not v:\<close> perform it.\<close>

fun truthy :: "json \<Rightarrow> bool" where
  "truthy JNull = False"
| "truthy (JBool b) = b"
| "truthy (JInt i) = (i \<noteq> 0)"
| "truthy (JFloat r) = (r \<noteq> 0)"
| "truthy (JStr s) = (s \<noteq> [])"
| "truthy (JArr xs) = (xs \<noteq> [])"
| "truthy (JObj d) = (d \<noteq> [])"

text \<open>Decimal digits of an int, as \<^verbatim>\<open>str\<close> and an f-string print it.\<close>

fun str_nat :: "nat \<Rightarrow> string" where
  "str_nat n =
     (if n < 10 then [char_of (48 + n)]
      else str_nat (n div 10) @ [char_of (48 + n mod 10)])"

declare str_nat.simps [simp del]

definition str_int :: "int \<Rightarrow> string" where
  "str_int i = (if i < 0 then CHR ''-'' # str_nat (nat (- i)) else str_nat (nat i))"

text \<open>
  \<^verbatim>\<open>str(v)\<close>. A str is itself; \<^verbatim>\<open>None\<close>, bools and ints print as Python prints them.
  The text of a float, a list or a dict is their \<^verbatim>\<open>repr\<close>, which belongs to the
  Python runtime and is taken as the parameter \<open>repr\<close>.
\<close>

fun py_str :: "(json \<Rightarrow> string) \<Rightarrow> json \<Rightarrow> string" where
  "py_str repr (JStr s) = s"
| "py_str repr JNull = ''None''"
| "py_str repr (JBool b) = (if b then ''True'' else ''False'')"
| "py_str repr (JInt i) = str_int i"
| "py_str repr v = repr v"

text \<open>
  \<^verbatim>\<open>str.lower\<close> on code points below 256: the capital letters A to Z and the capital
  letters of the Latin-1 block (192 to 222 without the multiplication sign 215) move up
  by 32, every other character stays.
\<close>

definition lower_char :: "char \<Rightarrow> char" where
  "lower_char c =
     (let n = (of_char c :: nat)
      in if (65 \<le> n \<and> n \<le> 90) \<or> (192 \<le> n \<and> n \<le> 222 \<and> n \<noteq> 215)
         then char_of (n + 32) else c)"

definition lower :: "string \<Rightarrow> string" where
  "lower s = map lower_char s"

section \<open>The credential\<close>

text \<open>
  The module variable \<^verbatim>\<open>_api_key\<close> (initially \<^verbatim>\<open>None\<close>) and the process
  environment are the state the credential is read from.
\<close>

record process =
  api_key_var :: "string option"
  environ :: "string \<rightharpoonup> string"

text \<open>\<^verbatim>\<open>if s:\<close> on a value that is \<^verbatim>\<open>None\<close> or a str.\<close>

fun truthy_str :: "string option \<Rightarrow> bool" where
  "truthy_str None = False"
| "truthy_str (Some s) = (s \<noteq> [])"

definition get_api_key :: "process \<Rightarrow> string option" where
  "get_api_key p =
     (if truthy_str (api_key_var p) then api_key_var p
      else environ p ''ETERNAL_AI_API_KEY'')"

definition set_api_key :: "string \<Rightarrow> process \<Rightarrow> process" where
  "set_api_key key p = p\<lparr>api_key_var := Some key\<rparr>"

section \<open>Normalising a generation response\<close>

text \<open>
  The nested shape is taken when \<^verbatim>\<open>"data" in data\<close> and the value bound to it is a
  dict; every other payload is read as the flat shape.
\<close>

definition parse_generate_response :: "dict \<Rightarrow> dict" where
  "parse_generate_response data =
     (case map_of data ''data'' of
        Some (JObj nested_data) \<Rightarrow>
          [(''request_id'', get_or nested_data ''request_id'' (get_or data ''request_id'' (JStr []))),
           (''status'', get_or nested_data ''status'' (JStr [])),
           (''result'', get_or nested_data ''result'' (JStr [])),
           (''progress'', get_or nested_data ''progress'' (JInt 0)),
           (''status_code'', get data ''status'')]
      | _ \<Rightarrow>
          [(''request_id'', get_or data ''request_id'' (JStr [])),
           (''status'', get_or data ''status'' (JStr [])),
           (''result'', get_or data ''result'' (JStr [])),
           (''progress'', get_or data ''progress'' (JInt 0))])"

section \<open>The network, the clock and the scripted service\<close>

text \<open>
  A request as the handlers build it: the URL, the query parameters or the JSON payload,
  and the headers.
\<close>

datatype request =
    GET string dict "(string \<times> string) list"
  | POST string "(string \<times> string) list" json

text \<open>
  What one request comes back with, after \<^verbatim>\<open>raise_for_status\<close> and
  \<^verbatim>\<open>response.json()\<close>: a decoded body, a body that is not JSON (\<^verbatim>\<open>json()\<close> raises),
  \<^verbatim>\<open>httpx.HTTPStatusError\<close> with the status code and the response text, or
  \<^verbatim>\<open>httpx.RequestError\<close> (a timeout or a connection failure) with its message.
\<close>

datatype reply =
    Json json
  | NotJson
  | HTTPStatusError nat string
  | RequestError string

datatype event = Sleep rat | Http request

text \<open>
  The service is scripted: the \<open>k\<close>-th request of a run is answered by \<open>replies k\<close>
  after \<open>latency k\<close> seconds, and the \<open>k\<close>-th sleep lasts \<open>oversleep k\<close> seconds longer
  than asked. \<open>api_base\<close> is the module constant \<^verbatim>\<open>ETERNAL_AI_API_BASE\<close>.
\<close>

record env =
  replies :: "nat \<Rightarrow> reply"
  latency :: "nat \<Rightarrow> rat"
  oversleep :: "nat \<Rightarrow> rat"
  repr :: "json \<Rightarrow> string"
  api_base :: string

text \<open>
  The state a handler runs in: the reading of \<^verbatim>\<open>time.time()\<close>, how many requests and
  sleeps have happened, and the effects so far in order.
\<close>

record world =
  now :: rat
  calls :: nat
  naps :: nat
  trace :: "event list"

definition sleep :: "env \<Rightarrow> rat \<Rightarrow> world \<Rightarrow> world" where
  "sleep E d w =
     w\<lparr>now := now w + d + oversleep E (naps w),
       naps := Suc (naps w),
       trace := trace w @ [Sleep d]\<rparr>"

definition http :: "env \<Rightarrow> request \<Rightarrow> world \<Rightarrow> world \<times> reply" where
  "http E rq w =
     (w\<lparr>now := now w + latency E (calls w),
        calls := Suc (calls w),
        trace := trace w @ [Http rq]\<rparr>,
      replies E (calls w))"

text \<open>The clock does not run backwards: no request and no sleep takes negative time.\<close>

definition steady :: "env \<Rightarrow> bool" where
  "steady E = (\<forall>k. 0 \<le> latency E k \<and> 0 \<le> oversleep E k)"

section \<open>The handlers\<close>

text \<open>
  A handler returns one \<^verbatim>\<open>TextContent\<close>: \<open>Text s\<close> with the text \<open>s\<close>, or
  \<open>JsonText v\<close>, whose text is \<^verbatim>\<open>json.dumps(v, indent=2)\<close>. An exception that no
  \<^verbatim>\<open>except\<close> clause of the handler catches leaves it: the left summand.
\<close>

datatype content = Text string | JsonText json

datatype exn = JSONDecodeError | AttributeError | TypeError

type_synonym result = "exn + content"

definition VISUAL_EFFECTS_ENDPOINT :: string where
  "VISUAL_EFFECTS_ENDPOINT = ''/uncensored-ai/effects''"

definition GENERATE_EFFECT_ENDPOINT :: string where
  "GENERATE_EFFECT_ENDPOINT = ''/generate''"

definition GENERATE_CUSTOM_ENDPOINT :: string where
  "GENERATE_CUSTOM_ENDPOINT = ''/base/generate''"

definition POLL_RESULT_ENDPOINT :: string where
  "POLL_RESULT_ENDPOINT = ''/poll-result''"

definition api_key_required :: content where
  "api_key_required =
     Text ''API key is required. Please set ETERNAL_AI_API_KEY environment variable.''"

definition api_error :: "nat \<Rightarrow> string \<Rightarrow> content" where
  "api_error code body = Text (''API Error: '' @ str_nat code @ '' - '' @ body)"

text \<open>\<^verbatim>\<open>page > 0\<close>: numbers and bools compare with an int, anything else raises.\<close>

fun gt_zero :: "json \<Rightarrow> exn + bool" where
  "gt_zero (JInt i) = Inr (0 < i)"
| "gt_zero (JFloat r) = Inr (0 < r)"
| "gt_zero (JBool b) = Inr b"
| "gt_zero v = Inl TypeError"

definition handle_get_visual_effects ::
  "env \<Rightarrow> process \<Rightarrow> dict \<Rightarrow> world \<Rightarrow> world \<times> result" where
  "handle_get_visual_effects E p arguments w =
     (let effect_type = get_or arguments ''effect_type'' (JStr []);
          page = get_or arguments ''page'' (JInt 1);
          params = (if truthy effect_type then [(''effect_type'', effect_type)] else [])
      in case gt_zero page of
           Inl e \<Rightarrow> (w, Inl e)
         | Inr positive \<Rightarrow>
             (let params = params @ (if positive then [(''page'', page)] else []);
                  api_key = get_api_key p;
                  headers = (if truthy_str api_key then [(''x-api-key'', the api_key)] else []);
                  (w', rp) = http E (GET (api_base E @ VISUAL_EFFECTS_ENDPOINT) params headers) w
              in case rp of
                   Json data \<Rightarrow> (w', Inr (JsonText data))
                 | NotJson \<Rightarrow> (w', Inl JSONDecodeError)
                 | HTTPStatusError code body \<Rightarrow> (w', Inr (api_error code body))
                 | RequestError msg \<Rightarrow> (w', Inr (Text (''Request Error: '' @ msg)))))"

text \<open>
  \<^verbatim>\<open>parse_generate_response(data)\<close> on whatever \<^verbatim>\<open>response.json()\<close> gave: on a value
  that is not a dict, \<^verbatim>\<open>"data" in data\<close> or \<^verbatim>\<open>data.get\<close> raises.
\<close>

fun parse_body :: "json \<Rightarrow> result" where
  "parse_body (JObj data) = Inr (JsonText (JObj (parse_generate_response data)))"
| "parse_body (JArr xs) = Inl AttributeError"
| "parse_body (JStr s) = Inl AttributeError"
| "parse_body v = Inl TypeError"

definition generate_reply :: "reply \<Rightarrow> result" where
  "generate_reply rp =
     (case rp of
        Json data \<Rightarrow> parse_body data
      | NotJson \<Rightarrow> Inl JSONDecodeError
      | HTTPStatusError code body \<Rightarrow> Inr (api_error code body)
      | RequestError msg \<Rightarrow> Inr (Text (''Request Error: '' @ msg)))"

definition handle_generate_with_effect ::
  "env \<Rightarrow> process \<Rightarrow> dict \<Rightarrow> world \<Rightarrow> world \<times> result" where
  "handle_generate_with_effect E p arguments w =
     (let api_key = get_api_key p
      in if \<not> truthy_str api_key then (w, Inr api_key_required)
         else let effect_id = get arguments ''effect_id''
              in if \<not> truthy effect_id then (w, Inr (Text ''Effect ID is required''))
                 else let images = get_or arguments ''images'' (JArr []);
                          headers = [(''x-api-key'', the api_key),
                                     (''Content-Type'', ''application/json'')];
                          payload = [(''effect_id'', effect_id)]
                                    @ (if truthy images then [(''images'', images)] else []);
                          (w', rp) = http E (POST (api_base E @ GENERATE_EFFECT_ENDPOINT)
                                                  headers (JObj payload)) w
                      in (w', generate_reply rp))"

definition handle_generate_custom_advanced ::
  "env \<Rightarrow> process \<Rightarrow> dict \<Rightarrow> world \<Rightarrow> world \<times> result" where
  "handle_generate_custom_advanced E p arguments w =
     (let api_key = get_api_key p
      in if \<not> truthy_str api_key then (w, Inr api_key_required)
         else let prompt = get arguments ''prompt'';
                  output_type = get arguments ''type''
              in if \<not> truthy prompt then (w, Inr (Text ''Prompt is required''))
                 else if \<not> truthy output_type
                 then (w, Inr (Text ''Type is required (image or video)''))
                 else let images = get_or arguments ''images'' (JArr []);
                          headers = [(''x-api-key'', the api_key),
                                     (''Content-Type'', ''application/json'')];
                          payload = [(''prompt'', prompt), (''type'', output_type)]
                                    @ (if truthy images then [(''images'', images)] else []);
                          (w', rp) = http E (POST (api_base E @ GENERATE_CUSTOM_ENDPOINT)
                                                  headers (JObj payload)) w
                      in (w', generate_reply rp))"

subsection \<open>Polling\<close>

definition max_duration :: rat where
  "max_duration = 120"

definition poll_interval :: rat where
  "poll_interval = 15"

definition timeout_response :: "dict \<Rightarrow> json \<Rightarrow> json \<Rightarrow> dict" where
  "timeout_response data request_id progress =
     [(''request_id'', get_or data ''request_id'' request_id),
      (''status'', get_or data ''status'' (JStr ''pending'')),
      (''progress'', progress),
      (''result_url'', get_or data ''result_url'' (JStr [])),
      (''effect_type'', get_or data ''effect_type'' (JStr [])),
      (''message'', JStr ''Task is still processing, please call this tool again'')]"

text \<open>
  The normalised status of a body: \<^verbatim>\<open>str(data.get("status", "")).lower()\<close>.
\<close>

definition status_of :: "(json \<Rightarrow> string) \<Rightarrow> dict \<Rightarrow> string" where
  "status_of render data = lower (py_str render (get_or data ''status'' (JStr [])))"

text \<open>The request of one poll: no query parameters, the URL built from the request id.\<close>

definition poll_request :: "env \<Rightarrow> (string \<times> string) list \<Rightarrow> json \<Rightarrow> request" where
  "poll_request E headers request_id =
     GET (api_base E @ POLL_RESULT_ENDPOINT @ ''/'' @ py_str (repr E) request_id) [] headers"

text \<open>
  One pass through the body of \<^verbatim>\<open>while True\<close>. \<open>Some r\<close> is a \<^verbatim>\<open>return\<close> or an
  exception leaving the loop, \<open>None\<close> is the end of the body after its sleep, where the
  loop starts over. \<open>elapsed\<close> is read before the request is sent. The \<^verbatim>\<open>print\<close>
  calls write to the console only and are left out.
\<close>

definition poll_once ::
  "env \<Rightarrow> (string \<times> string) list \<Rightarrow> json \<Rightarrow> rat \<Rightarrow> world \<Rightarrow> world \<times> result option" where
  "poll_once E headers request_id start_time w =
     (let elapsed = now w - start_time;
          (w', rp) = http E (poll_request E headers request_id) w
      in case rp of
           Json body \<Rightarrow>
             (case body of
                JObj data \<Rightarrow>
                  (let status = status_of (repr E) data;
                       progress = get_or data ''progress'' (JInt 0)
                   in if status = ''success'' \<or> status = ''completed''
                      then (w', Some (Inr (JsonText (JObj data))))
                      else if status = ''failed'' \<or> status = ''error''
                      then (w', Some (Inr (JsonText (JObj data))))
                      else if max_duration \<le> elapsed
                      then (w', Some (Inr (JsonText
                                  (JObj (timeout_response data request_id progress)))))
                      else (sleep E poll_interval w', None))
              | _ \<Rightarrow> (w', Some (Inl AttributeError)))
         | NotJson \<Rightarrow> (w', Some (Inl JSONDecodeError))
         | HTTPStatusError code body \<Rightarrow> (w', Some (Inr (api_error code body)))
         | RequestError msg \<Rightarrow>
             (if max_duration \<le> elapsed
              then (w', Some (Inr (Text (''Request Error after timeout: '' @ msg))))
              else (sleep E poll_interval w', None)))"

text \<open>The loop itself. A run that never leaves it has no result: \<open>None\<close>.\<close>

partial_function (option) poll_loop ::
  "env \<Rightarrow> (string \<times> string) list \<Rightarrow> json \<Rightarrow> rat \<Rightarrow> world \<Rightarrow> (world \<times> result) option" where
  "poll_loop E headers request_id start_time w =
     (case poll_once E headers request_id start_time w of
        (w', Some r) \<Rightarrow> Some (w', r)
      | (w', None) \<Rightarrow> poll_loop E headers request_id start_time w')"

definition handle_smart_poll_result ::
  "env \<Rightarrow> process \<Rightarrow> dict \<Rightarrow> world \<Rightarrow> (world \<times> result) option" where
  "handle_smart_poll_result E p arguments w =
     (let api_key = get_api_key p
      in if \<not> truthy_str api_key then Some (w, Inr api_key_required)
         else let request_id = get arguments ''request_id''
              in if \<not> truthy request_id then Some (w, Inr (Text ''Request ID is required''))
                 else let headers = [(''x-api-key'', the api_key)];
                          w1 = sleep E 30 w;
                          start_time = now w1
                      in poll_loop E headers request_id start_time w1)"

section \<open>Vocabulary of the properties\<close>

text \<open>The world right after the request of one poll has been answered.\<close>

definition sent :: "env \<Rightarrow> (string \<times> string) list \<Rightarrow> json \<Rightarrow> world \<Rightarrow> world" where
  "sent E headers request_id w = fst (http E (poll_request E headers request_id) w)"

text \<open>The four statuses on which the loop returns the body.\<close>

definition terminal :: "string \<Rightarrow> bool" where
  "terminal status = (status \<in> {''success'', ''completed'', ''failed'', ''error''})"

text \<open>
  The exception a reply makes the polling handler raise, if any: a body that is not JSON
  fails in \<^verbatim>\<open>response.json()\<close>, a JSON value that is not an object has no \<^verbatim>\<open>get\<close>.
\<close>

fun raises :: "reply \<Rightarrow> exn option" where
  "raises NotJson = Some JSONDecodeError"
| "raises (Json (JObj d)) = None"
| "raises (Json v) = Some AttributeError"
| "raises rp = None"

text \<open>How many more polls can start before \<open>max_duration\<close> has elapsed.\<close>

definition budget :: "rat \<Rightarrow> world \<Rightarrow> nat" where
  "budget t0 w = nat \<lceil>(max_duration - (now w - t0)) / poll_interval\<rceil>"

text \<open>The \<^verbatim>\<open>x-api-key\<close> header of every request of a trace, in order.\<close>

fun credential :: "request \<Rightarrow> string option" where
  "credential (GET url params headers) = map_of headers ''x-api-key''"
| "credential (POST url headers payload) = map_of headers ''x-api-key''"

fun credentials :: "event list \<Rightarrow> string option list" where
  "credentials [] = []"
| "credentials (Sleep d # es) = credentials es"
| "credentials (Http rq # es) = credential rq # credentials es"

subsection \<open>Concrete runs\<close>

text \<open>
  A service that gives the same reply to every request, answers in one second, and
  whose sleeps are exact.
\<close>

definition constant_service :: "reply \<Rightarrow> env" where
  "constant_service rp =
     \<lparr>replies = (\<lambda>k. rp), latency = (\<lambda>k. 1), oversleep = (\<lambda>k. 0),
      repr = (\<lambda>v. ''?''), api_base = ''https://open.eternalai.org''\<rparr>"

text \<open>A service whose first reply is \<open>first\<close> and every later one \<open>rest\<close>.\<close>

definition two_phase_service :: "reply \<Rightarrow> reply \<Rightarrow> env" where
  "two_phase_service first rest =
     \<lparr>replies = (\<lambda>k. if k = 0 then first else rest), latency = (\<lambda>k. 1),
      oversleep = (\<lambda>k. 0), repr = (\<lambda>v. ''?''), api_base = ''https://open.eternalai.org''\<rparr>"

definition fresh :: world where
  "fresh = \<lparr>now = 0, calls = 0, naps = 0, trace = []\<rparr>"

text \<open>A world in which 500 seconds have passed since time 0 and nothing else happened.\<close>

definition late :: world where
  "late = \<lparr>now = 500, calls = 0, naps = 0, trace = []\<rparr>"

text \<open>One second before \<open>max_duration\<close> has passed since time 0.\<close>

definition closing :: world where
  "closing = \<lparr>now = 119, calls = 0, naps = 0, trace = []\<rparr>"

text \<open>A service that lets every request fail at the client's 30 second timeout.\<close>

definition hanging_service :: env where
  "hanging_service =
     \<lparr>replies = (\<lambda>k. RequestError ''timed out''), latency = (\<lambda>k. 30),
      oversleep = (\<lambda>k. 0), repr = (\<lambda>v. ''?''), api_base = ''https://open.eternalai.org''\<rparr>"

definition keyed :: process where
  "keyed = \<lparr>api_key_var = Some ''secret'', environ = Map.empty\<rparr>"

definition unkeyed :: process where
  "unkeyed = \<lparr>api_key_var = None, environ = Map.empty\<rparr>"

definition r1_arguments :: dict where
  "r1_arguments = [(''request_id'', JStr ''r1'')]"

definition completed_body :: dict where
  "completed_body = [(''request_id'', JStr ''r1''), (''status'', JStr ''Completed''),
                     (''result_url'', JStr ''https://cdn/x.png'')]"

definition failed_body :: dict where
  "failed_body = [(''request_id'', JStr ''r1''), (''status'', JStr ''failed'')]"

definition padded_body :: dict where
  "padded_body = [(''request_id'', JStr ''r1''), (''status'', JStr '' success '')]"

definition odd_progress_body :: dict where
  "odd_progress_body = [(''status'', JStr ''processing''), (''progress'', JStr ''abc'')]"

definition processing_body :: dict where
  "processing_body = [(''status'', JStr ''processing'')]"

definition flat_payload :: dict where
  "flat_payload = [(''status'', JStr ''pending''), (''request_id'', JStr ''r1''),
                   (''progress'', JInt 40), (''result'', JStr [])]"

definition nested_payload :: dict where
  "nested_payload =
     [(''status'', JInt 1), (''request_id'', JStr ''outer''),
      (''data'', JObj [(''request_id'', JStr ''inner''), (''status'', JStr ''pending''),
                      (''result'', JStr ''u''), (''progress'', JInt 7)])]"

text \<open>A process with no stored key whose environment holds one.\<close>

definition env_keyed :: process where
  "env_keyed = \<lparr>api_key_var = None, environ = [''ETERNAL_AI_API_KEY'' \<mapsto> ''from-env'']\<rparr>"

definition effect_arguments :: dict where
  "effect_arguments = [(''effect_id'', JStr ''e1'')]"

section \<open>Single polls\<close>

lemma sent_simps:
  "now (sent E h rid w) = now w + latency E (calls w)"
  "calls (sent E h rid w) = Suc (calls w)"
  "naps (sent E h rid w) = naps w"
  "trace (sent E h rid w) = trace w @ [Http (poll_request E h rid)]"
  by (simp_all add: sent_def http_def)

lemma poll_once_terminal:
  "replies E (calls w) = Json (JObj data) \<Longrightarrow> terminal (status_of (repr E) data) \<Longrightarrow>
   poll_once E h rid t0 w = (sent E h rid w, Some (Inr (JsonText (JObj data))))"
  by (auto simp: poll_once_def sent_def http_def terminal_def Let_def)

lemma poll_once_pending:
  "replies E (calls w) = Json (JObj data) \<Longrightarrow> \<not> terminal (status_of (repr E) data) \<Longrightarrow>
   poll_once E h rid t0 w =
     (if max_duration \<le> now w - t0
      then (sent E h rid w, Some (Inr (JsonText (JObj (timeout_response data rid (get_or data ''progress'' (JInt 0)))))))
      else (sleep E poll_interval (sent E h rid w), None))"
  by (auto simp: poll_once_def sent_def http_def terminal_def Let_def)

lemma poll_once_not_object:
  "replies E (calls w) = Json v \<Longrightarrow> \<forall>d. v \<noteq> JObj d \<Longrightarrow>
   poll_once E h rid t0 w = (sent E h rid w, Some (Inl AttributeError))"
  by (cases v) (auto simp: poll_once_def sent_def http_def Let_def)

lemma poll_once_not_json:
  "replies E (calls w) = NotJson \<Longrightarrow>
   poll_once E h rid t0 w = (sent E h rid w, Some (Inl JSONDecodeError))"
  by (auto simp: poll_once_def sent_def http_def Let_def)

lemma poll_once_status_error:
  "replies E (calls w) = HTTPStatusError code body \<Longrightarrow>
   poll_once E h rid t0 w = (sent E h rid w, Some (Inr (api_error code body)))"
  by (auto simp: poll_once_def sent_def http_def Let_def)

lemma poll_once_request_error:
  "replies E (calls w) = RequestError msg \<Longrightarrow>
   poll_once E h rid t0 w =
     (if max_duration \<le> now w - t0
      then (sent E h rid w, Some (Inr (Text (''Request Error after timeout: '' @ msg))))
      else (sleep E poll_interval (sent E h rid w), None))"
  by (auto simp: poll_once_def sent_def http_def Let_def)

lemma poll_loop_return:
  "poll_once E h rid t0 w = (w', Some r) \<Longrightarrow> poll_loop E h rid t0 w = Some (w', r)"
  by (subst poll_loop.simps) simp

lemma poll_loop_again:
  "poll_once E h rid t0 w = (w', None) \<Longrightarrow> poll_loop E h rid t0 w = poll_loop E h rid t0 w'"
  by (subst poll_loop.simps) simp


lemma poll_once_calls:
  "poll_once E h rid t0 w = (w', ro) \<Longrightarrow> calls w' = Suc (calls w)"
  by (auto simp: poll_once_def http_def sleep_def Let_def
           split: reply.splits json.splits if_splits)

lemma poll_once_continue:
  assumes "poll_once E h rid t0 w = (w', None)"
  shows "now w - t0 < max_duration"
    and "now w' = now w + latency E (calls w) + poll_interval + oversleep E (naps w)"
    and "raises (replies E (calls w)) = None"
  using assms
  by (auto simp: poll_once_def http_def sleep_def Let_def
           split: reply.splits json.splits if_splits)

lemma poll_once_result:
  assumes "poll_once E h rid t0 w = (w', Some r)"
  shows "case raises (replies E (calls w)) of Some e \<Rightarrow> r = Inl e | None \<Rightarrow> (\<exists>c. r = Inr c)"
  using assms
  by (auto simp: poll_once_def http_def sleep_def Let_def
           split: reply.splits json.splits if_splits)

lemma budget_step:
  assumes "now w - t0 < max_duration" and "now w + poll_interval \<le> now w'"
  shows "Suc (budget t0 w') \<le> budget t0 w"
proof -
  let ?a = "(max_duration - (now w - t0)) / poll_interval"
  let ?b = "(max_duration - (now w' - t0)) / poll_interval"
  have "?b + 1 \<le> ?a" using assms by (simp add: poll_interval_def max_duration_def field_simps)
  then have "\<lceil>?b\<rceil> + 1 \<le> \<lceil>?a\<rceil>" by (metis ceiling_add_one ceiling_mono)
  moreover have "0 < ?a" using assms by (simp add: poll_interval_def max_duration_def)
  then have "0 < \<lceil>?a\<rceil>" by simp
  ultimately show ?thesis by (simp add: budget_def) linarith
qed

lemma poll_loop_total:
  assumes "steady E"
  shows "\<exists>w' r. poll_loop E h rid t0 w = Some (w', r)
           \<and> calls w < calls w' \<and> calls w' \<le> Suc (calls w + budget t0 w)
           \<and> (case raises (replies E (calls w' - 1)) of
                 Some e \<Rightarrow> r = Inl e | None \<Rightarrow> (\<exists>c. r = Inr c))
           \<and> (\<forall>k. calls w \<le> k \<and> k < calls w' - 1 \<longrightarrow> raises (replies E k) = None)"
proof (induction "budget t0 w" arbitrary: w rule: less_induct)
  case less
  obtain w1 ro where step: "poll_once E h rid t0 w = (w1, ro)" by (cases "poll_once E h rid t0 w")
  have c1: "calls w1 = Suc (calls w)" using step by (rule poll_once_calls)
  show ?case
  proof (cases ro)
    case (Some r)
    have "poll_loop E h rid t0 w = Some (w1, r)" using step Some by (simp add: poll_loop_return)
    moreover have "case raises (replies E (calls w1 - 1)) of Some e \<Rightarrow> r = Inl e | None \<Rightarrow> (\<exists>c. r = Inr c)"
      using poll_once_result[of E h rid t0 w w1 r] step Some c1 by simp
    ultimately show ?thesis using c1 by auto
  next
    case None
    note cont = poll_once_continue[OF step[unfolded None]]
    have adv: "now w + poll_interval \<le> now w1"
      using cont(2) assms by (simp add: steady_def)
    have dec: "Suc (budget t0 w1) \<le> budget t0 w" using cont(1) adv by (rule budget_step)
    then have "budget t0 w1 < budget t0 w" by simp
    from less[OF this] obtain w' r where
      ih: "poll_loop E h rid t0 w1 = Some (w', r)" "calls w1 < calls w'"
          "calls w' \<le> Suc (calls w1 + budget t0 w1)"
          "case raises (replies E (calls w' - 1)) of Some e \<Rightarrow> r = Inl e | None \<Rightarrow> (\<exists>c. r = Inr c)"
          "\<forall>k. calls w1 \<le> k \<and> k < calls w' - 1 \<longrightarrow> raises (replies E k) = None"
      by blast
    have "poll_loop E h rid t0 w = Some (w', r)"
      using step None ih(1) by (simp add: poll_loop_again)
    moreover have "calls w < calls w'" using ih(2) c1 by simp
    moreover have "calls w' \<le> Suc (calls w + budget t0 w)" using ih(3) c1 dec by simp
    moreover have "\<forall>k. calls w \<le> k \<and> k < calls w' - 1 \<longrightarrow> raises (replies E k) = None"
    proof (intro allI impI)
      fix k assume k: "calls w \<le> k \<and> k < calls w' - 1"
      show "raises (replies E k) = None"
      proof (cases "k = calls w")
        case True then show ?thesis using cont(3) by simp
      next
        case False
        then have "calls w1 \<le> k" using k c1 by simp
        then show ?thesis using ih(5) k by simp
      qed
    qed
    ultimately show ?thesis using ih(4) by blast
  qed
qed

lemma constant_service_simps:
  "replies (constant_service rp) k = rp"
  "latency (constant_service rp) k = 1"
  "oversleep (constant_service rp) k = 0"
  by (simp_all add: constant_service_def)

lemma two_phase_service_simps:
  "replies (two_phase_service a b) 0 = a"
  "replies (two_phase_service a b) (Suc k) = b"
  "latency (two_phase_service a b) k = 1"
  "oversleep (two_phase_service a b) k = 0"
  by (simp_all add: two_phase_service_def)

lemma world_simps:
  "now fresh = 0" "calls fresh = 0" "naps fresh = 0" "trace fresh = []"
  "now late = 500" "calls late = 0" "naps late = 0" "trace late = []"
  by (simp_all add: fresh_def late_def)

lemma budget_start: "now w = t0 \<Longrightarrow> budget t0 w = 8"
  by (simp add: budget_def max_duration_def poll_interval_def)

lemma handle_cases:
  "handle_smart_poll_result E p arguments w =
     (if \<not> truthy_str (get_api_key p) then Some (w, Inr api_key_required)
      else if \<not> truthy (get arguments ''request_id'') then Some (w, Inr (Text ''Request ID is required''))
      else poll_loop E [(''x-api-key'', the (get_api_key p))] (get arguments ''request_id'')
             (now (sleep E 30 w)) (sleep E 30 w))"
  by (simp add: handle_smart_poll_result_def Let_def)

lemma sleep_simps:
  "now (sleep E d w) = now w + d + oversleep E (naps w)"
  "calls (sleep E d w) = calls w"
  "naps (sleep E d w) = Suc (naps w)"
  "trace (sleep E d w) = trace w @ [Sleep d]"
  by (simp_all add: sleep_def)

subsection \<open>Status and progress of a body\<close>

lemma lower_terminal: "terminal t \<Longrightarrow> lower t = t"
  unfolding terminal_def by (elim insertE emptyE; hypsubst; code_simp)

lemma status_of_str: "map_of data ''status'' = Some (JStr s) \<Longrightarrow> status_of render data = lower s"
  by (simp add: status_of_def get_or_def)

lemma status_of_missing: "map_of data ''status'' = None \<Longrightarrow> status_of render data = []"
  by (simp add: status_of_def get_or_def lower_def)

lemma not_terminal_empty: "\<not> terminal []"
  by (simp add: terminal_def)

lemma poll_once_decision:
  assumes "replies E (calls w) = Json (JObj data)"
  shows "(snd (poll_once E h rid t0 w) = None)
           = (\<not> terminal (status_of (repr E) data) \<and> now w - t0 < max_duration)"
proof (cases "terminal (status_of (repr E) data)")
  case True
  then show ?thesis using assms by (simp add: poll_once_terminal)
next
  case False
  then show ?thesis using assms by (simp add: poll_once_pending not_le)
qed

lemma status_of_cong:
  "map_of data' ''status'' = map_of data ''status'' \<Longrightarrow> status_of render data' = status_of render data"
  by (simp add: status_of_def get_or_def)

subsection \<open>Payload shapes\<close>

lemma map_of_key_in:
  "k \<in> fst ` set d \<Longrightarrow> \<exists>v. map_of d k = Some v"
  by (cases "map_of d k") (auto simp: map_of_eq_None_iff)

lemma flat_keys_values:
  assumes "fst ` set flat = {''request_id'', ''status'', ''result'', ''progress''}"
  obtains a b c d where
    "map_of flat ''request_id'' = Some a" "map_of flat ''status'' = Some b"
    "map_of flat ''result'' = Some c" "map_of flat ''progress'' = Some d"
proof -
  have "''request_id'' \<in> fst ` set flat" "''status'' \<in> fst ` set flat"
       "''result'' \<in> fst ` set flat" "''progress'' \<in> fst ` set flat"
    unfolding assms by blast+
  then show ?thesis using map_of_key_in that by metis
qed

lemma flat_keys_others:
  assumes "fst ` set flat = {''request_id'', ''status'', ''result'', ''progress''}"
      and "k \<noteq> ''request_id''" "k \<noteq> ''status''" "k \<noteq> ''result''" "k \<noteq> ''progress''"
  shows "map_of flat k = None"
proof -
  have "k \<notin> fst ` set flat" unfolding assms(1) using assms(2-5) by blast
  then show ?thesis by (simp add: map_of_eq_None_iff)
qed

lemma parse_flat:
  assumes "map_of flat ''data'' = None"
      and "map_of flat ''request_id'' = Some a" "map_of flat ''status'' = Some b"
          "map_of flat ''result'' = Some c" "map_of flat ''progress'' = Some d"
  shows "parse_generate_response flat =
           [(''request_id'', a), (''status'', b), (''result'', c), (''progress'', d)]"
  using assms by (simp add: parse_generate_response_def get_or_def)

lemma parse_normal_form:
  "parse_generate_response [(''request_id'', a), (''status'', b), (''result'', c), (''progress'', d)]
     = [(''request_id'', a), (''status'', b), (''result'', c), (''progress'', d)]"
  by (simp add: parse_generate_response_def get_or_def)

lemma parse_nested:
  assumes "map_of data ''data'' = Some (JObj nested)"
  shows "parse_generate_response data =
          [(''request_id'', get_or nested ''request_id'' (get_or data ''request_id'' (JStr []))),
           (''status'', get_or nested ''status'' (JStr [])),
           (''result'', get_or nested ''result'' (JStr [])),
           (''progress'', get_or nested ''progress'' (JInt 0)),
           (''status_code'', get data ''status'')]"
  using assms by (simp add: parse_generate_response_def)

subsection \<open>Credentials on the wire\<close>

lemma credentials_append: "credentials (xs @ ys) = credentials xs @ credentials ys"
  by (induction xs rule: credentials.induct) simp_all

lemma poll_once_credentials:
  assumes "poll_once E h rid t0 w = (w', ro)"
  shows "credentials (trace w') = credentials (trace w) @ [map_of h ''x-api-key'']"
  using assms
  by (auto simp: poll_once_def http_def sleep_def Let_def poll_request_def credentials_append
           split: reply.splits json.splits if_splits)

lemma poll_loop_credentials:
  assumes "poll_loop E h rid t0 w = Some y"
  shows "set (credentials (trace (fst y)))
           \<subseteq> insert (map_of h ''x-api-key'') (set (credentials (trace w)))"
proof (rule poll_loop.raw_induct
    [where P = "\<lambda>E h rid t0 w y. set (credentials (trace (fst y)))
                   \<subseteq> insert (map_of h ''x-api-key'') (set (credentials (trace w)))",
     OF _ assms])
  fix loop E h rid t0 w y
  assume IH: "\<And>h rid t0 w b y. loop h rid t0 w b = Some y \<Longrightarrow>
                set (credentials (trace (fst y)))
                  \<subseteq> insert (map_of rid ''x-api-key'') (set (credentials (trace b)))"
    and body: "(case poll_once E h rid t0 w of
                  (w', None) \<Rightarrow> loop E h rid t0 w'
                | (w', Some r) \<Rightarrow> Some (w', r)) = Some y"
  obtain w1 ro where step: "poll_once E h rid t0 w = (w1, ro)"
    by (cases "poll_once E h rid t0 w")
  note c1 = poll_once_credentials [OF step]
  show "set (credentials (trace (fst y)))
          \<subseteq> insert (map_of h ''x-api-key'') (set (credentials (trace w)))"
  proof (cases ro)
    case None
    then have "loop E h rid t0 w1 = Some y" using body step by simp
    from IH [OF this] show ?thesis using c1 by auto
  next
    case (Some r)
    then have "y = (w1, r)" using body step by simp
    then show ?thesis using c1 by auto
  qed
qed

lemma visual_effects_credentials:
  "set (credentials (trace (fst (handle_get_visual_effects E p args w))))
     \<subseteq> insert (if truthy_str (get_api_key p) then get_api_key p else None)
          (set (credentials (trace w)))"
proof (cases "get_api_key p")
  case None
  then show ?thesis
    by (auto simp: handle_get_visual_effects_def http_def Let_def credentials_append
             split: sum.splits reply.splits prod.splits)
next
  case (Some k)
  then show ?thesis
    by (auto simp: handle_get_visual_effects_def http_def Let_def credentials_append
             split: sum.splits reply.splits prod.splits)
qed

lemma generate_with_effect_credentials:
  "set (credentials (trace (fst (handle_generate_with_effect E p args w))))
     \<subseteq> insert (get_api_key p) (set (credentials (trace w)))"
  by (cases "get_api_key p")
     (auto simp: handle_generate_with_effect_def http_def Let_def credentials_append
           split: prod.splits)

lemma generate_custom_credentials:
  "set (credentials (trace (fst (handle_generate_custom_advanced E p args w))))
     \<subseteq> insert (get_api_key p) (set (credentials (trace w)))"
  by (cases "get_api_key p")
     (auto simp: handle_generate_custom_advanced_def http_def Let_def credentials_append
           split: prod.splits)

lemma smart_poll_credentials:
  assumes "handle_smart_poll_result E p args w = Some (w', r)"
  shows "set (credentials (trace w')) \<subseteq> insert (get_api_key p) (set (credentials (trace w)))"
proof (cases "\<not> truthy_str (get_api_key p) \<or> \<not> truthy (get args ''request_id'')")
  case True
  then show ?thesis using assms by (auto simp: handle_cases split: if_splits)
next
  case False
  then obtain k where k: "get_api_key p = Some k" by (cases "get_api_key p") auto
  from False assms have
    "poll_loop E [(''x-api-key'', k)] (get args ''request_id'') (now (sleep E 30 w)) (sleep E 30 w)
       = Some (w', r)"
    by (simp add: handle_cases k)
  from poll_loop_credentials [OF this] show ?thesis
    by (simp add: k sleep_simps credentials_append)
qed

lemma no_key_no_request:
  assumes "\<not> truthy_str (get_api_key p)"
  shows "handle_generate_with_effect E p args w = (w, Inr api_key_required)"
    and "handle_generate_custom_advanced E p args w = (w, Inr api_key_required)"
    and "handle_smart_poll_result E p args w = Some (w, Inr api_key_required)"
  using assms
  by (simp_all add: handle_generate_with_effect_def handle_generate_custom_advanced_def
                    handle_cases)

section \<open>The polling state machine\<close>

text \<open>
  C1. A poll whose body carries a terminal status (\<open>success\<close>, \<open>completed\<close>,
  \<open>failed\<close> or \<open>error\<close> after normalisation) returns that body, whatever the
  elapsed time is: the status is looked at before the deadline, so the poll never yields
  the timeout payload, also when \<open>max_duration\<close> has already passed.
\<close>

theorem terminal_status_wins:
  assumes "replies E (calls w) = Json (JObj data)"
      and "terminal (status_of (repr E) data)"
  shows "poll_loop E headers request_id start_time w
           = Some (sent E headers request_id w, Inr (JsonText (JObj data)))"
  using assms by (simp add: poll_once_terminal poll_loop_return)

theorem terminal_status_wins_witness:
  "max_duration \<le> now late - 0
   \<and> poll_loop (constant_service (Json (JObj completed_body))) [] (JStr ''r1'') 0 late
       = Some (sent (constant_service (Json (JObj completed_body))) [] (JStr ''r1'') late,
               Inr (JsonText (JObj completed_body)))"
proof -
  let ?E = "constant_service (Json (JObj completed_body))"
  have a: "replies ?E (calls late) = Json (JObj completed_body)"
    by (simp add: constant_service_simps)
  have b: "terminal (status_of (repr ?E) completed_body)" by code_simp
  show ?thesis
    using terminal_status_wins [OF a b, of "[]" "JStr ''r1''" 0]
    by (simp add: world_simps max_duration_def)
qed

text \<open>
  C2. An invocation of the polling handler terminates on every script of replies,
  provided the clock does not run backwards: it sends at most nine requests. Every pass
  through the loop that does not return moves the clock on by at least
  \<open>poll_interval\<close>, and a pass that starts when \<open>max_duration\<close> has elapsed
  returns. When every reply is a JSON object, a transient error or a status error, what
  comes back is an outcome.
\<close>

theorem smart_poll_terminates:
  assumes "steady E"
  shows "(\<exists>w' r. handle_smart_poll_result E p arguments w = Some (w', r)
            \<and> calls w' \<le> calls w + 9
            \<and> ((\<forall>k. raises (replies E k) = None) \<longrightarrow> (\<exists>c. r = Inr c)))
       \<and> (\<forall>(v::world) v'. poll_once E h rid t0 v = (v', None) \<longrightarrow> now v + poll_interval \<le> now v')
       \<and> (\<forall>v::world. max_duration \<le> now v - t0 \<longrightarrow> snd (poll_once E h rid t0 v) \<noteq> None)"
proof (intro conjI allI impI)
  show "\<exists>w' r. handle_smart_poll_result E p arguments w = Some (w', r)
            \<and> calls w' \<le> calls w + 9
            \<and> ((\<forall>k. raises (replies E k) = None) \<longrightarrow> (\<exists>c. r = Inr c))"
  proof (cases "\<not> truthy_str (get_api_key p) \<or> \<not> truthy (get arguments ''request_id'')")
    case True
    then show ?thesis by (auto simp: handle_cases)
  next
    case False
    let ?w1 = "sleep E 30 w"
    let ?h = "[(''x-api-key'', the (get_api_key p))]"
    let ?rid = "get arguments ''request_id''"
    from poll_loop_total [OF assms, of ?h ?rid "now ?w1" ?w1]
    obtain w' r where run: "poll_loop E ?h ?rid (now ?w1) ?w1 = Some (w', r)"
      and bound: "calls w' \<le> Suc (calls ?w1 + budget (now ?w1) ?w1)"
      and res: "case raises (replies E (calls w' - 1)) of
                  Some e \<Rightarrow> r = Inl e | None \<Rightarrow> (\<exists>c. r = Inr c)"
      by blast
    have "handle_smart_poll_result E p arguments w = Some (w', r)"
      using False run by (simp add: handle_cases)
    moreover have "calls w' \<le> calls w + 9"
      using bound by (simp add: budget_start sleep_simps)
    moreover have "(\<forall>k. raises (replies E k) = None) \<longrightarrow> (\<exists>c. r = Inr c)"
      using res by auto
    ultimately show ?thesis by blast
  qed
next
  fix v :: world and v' assume "poll_once E h rid t0 v = (v', None)"
  from poll_once_continue(2) [OF this] assms
  show "now v + poll_interval \<le> now v'" by (simp add: steady_def)
next
  fix v :: world assume late: "max_duration \<le> now v - t0"
  show "snd (poll_once E h rid t0 v) \<noteq> None"
  proof
    assume "snd (poll_once E h rid t0 v) = None"
    then have "poll_once E h rid t0 v = (fst (poll_once E h rid t0 v), None)"
      by (metis prod.collapse)
    from poll_once_continue(1) [OF this] late show False by simp
  qed
qed

theorem smart_poll_terminates_witness:
  "steady (constant_service (Json (JObj processing_body)))
   \<and> (\<exists>w' c. handle_smart_poll_result (constant_service (Json (JObj processing_body)))
                 keyed r1_arguments fresh = Some (w', Inr c)
             \<and> calls w' \<le> 9)
   \<and> now fresh + poll_interval
       \<le> now (fst (poll_once (constant_service (Json (JObj processing_body))) [] (JStr ''r1'') 0 fresh))
   \<and> snd (poll_once (constant_service (Json (JObj processing_body))) [] (JStr ''r1'') 0 late) \<noteq> None"
proof -
  let ?E = "constant_service (Json (JObj processing_body))"
  have st: "steady ?E" by (simp add: steady_def constant_service_simps)
  note T = smart_poll_terminates [OF st, of keyed r1_arguments fresh "[]" "JStr ''r1''" 0]
  have ok: "\<forall>k. raises (replies ?E k) = None" by (simp add: constant_service_simps)
  have nt: "\<not> terminal (status_of (repr ?E) processing_body)" by code_simp
  have once: "poll_once ?E [] (JStr ''r1'') 0 fresh
                = (fst (poll_once ?E [] (JStr ''r1'') 0 fresh), None)"
    using poll_once_pending [of ?E fresh processing_body "[]" "JStr ''r1''" 0] nt
    by (simp add: constant_service_simps world_simps max_duration_def)
  have a: "\<exists>w' c. handle_smart_poll_result ?E keyed r1_arguments fresh = Some (w', Inr c)
             \<and> calls w' \<le> 9"
    using T ok by (auto simp: world_simps)
  have b: "now fresh + poll_interval \<le> now (fst (poll_once ?E [] (JStr ''r1'') 0 fresh))"
    using T once by blast
  have c: "snd (poll_once ?E [] (JStr ''r1'') 0 late) \<noteq> None"
    using T by (simp add: world_simps max_duration_def)
  show ?thesis using st a b c by blast
qed

text \<open>
  C3. When no credential is available or the \<^verbatim>\<open>request_id\<close> argument is missing
  or empty, the handler returns the precondition message in an unchanged world: the
  clock has not moved and the trace has no sleep and no request added.
\<close>

theorem precondition_failure_immediate:
  assumes "\<not> truthy_str (get_api_key p) \<or> \<not> truthy (get arguments ''request_id'')"
  shows "handle_smart_poll_result E p arguments w
           = Some (w, Inr (if \<not> truthy_str (get_api_key p) then api_key_required
                           else Text ''Request ID is required''))"
  using assms by (auto simp: handle_smart_poll_result_def Let_def)

theorem precondition_failure_immediate_witness:
  "handle_smart_poll_result (constant_service NotJson) unkeyed r1_arguments fresh
     = Some (fresh, Inr api_key_required)
   \<and> handle_smart_poll_result (constant_service NotJson) keyed [(''request_id'', JStr [])] fresh
     = Some (fresh, Inr (Text ''Request ID is required''))"
proof -
  have a: "\<not> truthy_str (get_api_key unkeyed)"
    by (simp add: get_api_key_def unkeyed_def)
  have b: "truthy_str (get_api_key keyed)"
    by (simp add: get_api_key_def keyed_def)
  have c: "\<not> truthy (get [(''request_id'', JStr [])] ''request_id'')"
    by (simp add: get_def get_or_def)
  show ?thesis
    using precondition_failure_immediate [of unkeyed r1_arguments "constant_service NotJson" fresh]
          precondition_failure_immediate [of keyed "[(''request_id'', JStr [])]" "constant_service NotJson" fresh]
          a b c
    by simp
qed

text \<open>
  C4, as the code has it. The elapsed time of a pass is read once, at its start, before
  the request is sent. A poll that fails with a transient transport error returns the
  error text (which is not the timeout payload) when that reading has reached
  \<open>max_duration\<close>; otherwise it sleeps \<open>poll_interval\<close> and polls again,
  however long the failed request itself took, and when that next poll reports
  \<open>failed\<close> or \<open>error\<close> the handler returns that body.
\<close>

theorem transient_error_tolerated:
  assumes "replies E (calls w) = RequestError msg"
  shows "(max_duration \<le> now w - t0 \<longrightarrow>
            poll_loop E h rid t0 w
              = Some (sent E h rid w, Inr (Text (''Request Error after timeout: '' @ msg)))
            \<and> Text (''Request Error after timeout: '' @ msg)
                \<noteq> JsonText (JObj (timeout_response data rid progress)))
       \<and> (now w - t0 < max_duration \<longrightarrow>
            poll_loop E h rid t0 w
              = poll_loop E h rid t0 (sleep E poll_interval (sent E h rid w)))
       \<and> (now w - t0 < max_duration \<and> replies E (Suc (calls w)) = Json (JObj data)
            \<and> status_of (repr E) data \<in> {''failed'', ''error''} \<longrightarrow>
            poll_loop E h rid t0 w
              = Some (sent E h rid (sleep E poll_interval (sent E h rid w)),
                      Inr (JsonText (JObj data))))"
proof -
  note step = poll_once_request_error [OF assms, of h rid t0]
  have late: "max_duration \<le> now w - t0 \<Longrightarrow>
      poll_loop E h rid t0 w
        = Some (sent E h rid w, Inr (Text (''Request Error after timeout: '' @ msg)))"
    using step by (simp add: poll_loop_return)
  have early: "now w - t0 < max_duration \<Longrightarrow>
      poll_loop E h rid t0 w = poll_loop E h rid t0 (sleep E poll_interval (sent E h rid w))"
    using step by (simp add: poll_loop_again)
  have next_poll: "replies E (Suc (calls w)) = Json (JObj data) \<Longrightarrow>
      status_of (repr E) data \<in> {''failed'', ''error''} \<Longrightarrow>
      poll_loop E h rid t0 (sleep E poll_interval (sent E h rid w))
        = Some (sent E h rid (sleep E poll_interval (sent E h rid w)), Inr (JsonText (JObj data)))"
    by (rule poll_loop_return, rule poll_once_terminal)
       (auto simp: sleep_def sent_simps terminal_def)
  show ?thesis using late early next_poll by simp
qed

theorem transient_error_tolerated_witness:
  "poll_loop (two_phase_service (RequestError ''connection refused'') (Json (JObj failed_body)))
       [] (JStr ''r1'') 0 late
     = Some (sent (two_phase_service (RequestError ''connection refused'') (Json (JObj failed_body)))
               [] (JStr ''r1'') late,
             Inr (Text (''Request Error after timeout: '' @ ''connection refused'')))
   \<and> poll_loop (two_phase_service (RequestError ''connection refused'') (Json (JObj failed_body)))
       [] (JStr ''r1'') 0 fresh
     = Some (sent (two_phase_service (RequestError ''connection refused'') (Json (JObj failed_body)))
               [] (JStr ''r1'')
               (sleep (two_phase_service (RequestError ''connection refused'') (Json (JObj failed_body)))
                  poll_interval
                  (sent (two_phase_service (RequestError ''connection refused'') (Json (JObj failed_body)))
                     [] (JStr ''r1'') fresh)),
             Inr (JsonText (JObj failed_body)))"
proof -
  let ?E = "two_phase_service (RequestError ''connection refused'') (Json (JObj failed_body))"
  have a: "replies ?E (calls late) = RequestError ''connection refused''"
    by (simp add: two_phase_service_simps world_simps)
  have b: "replies ?E (calls fresh) = RequestError ''connection refused''"
    by (simp add: two_phase_service_simps world_simps)
  have c: "replies ?E (Suc (calls fresh)) = Json (JObj failed_body)"
    by (simp add: two_phase_service_simps)
  have d: "status_of (repr ?E) failed_body = ''failed''" by code_simp
  have e: "max_duration \<le> now late - 0" "now fresh - 0 < max_duration"
    by (simp_all add: world_simps max_duration_def)
  have "poll_loop ?E [] (JStr ''r1'') 0 late
          = Some (sent ?E [] (JStr ''r1'') late,
                  Inr (Text (''Request Error after timeout: '' @ ''connection refused'')))"
    using transient_error_tolerated [OF a, of 0 "[]" "JStr ''r1''" failed_body] e(1) by blast
  moreover have "poll_loop ?E [] (JStr ''r1'') 0 fresh
          = Some (sent ?E [] (JStr ''r1'') (sleep ?E poll_interval (sent ?E [] (JStr ''r1'') fresh)),
                  Inr (JsonText (JObj failed_body)))"
    using transient_error_tolerated [OF b, of 0 "[]" "JStr ''r1''" failed_body] c d e(2) by blast
  ultimately show ?thesis by (rule conjI)
qed

text \<open>
  C4 as stated fails on the time the request takes: a pass that starts 119 seconds
  after the first poll and whose request times out 30 seconds later has its error at
  149 seconds, past \<open>max_duration\<close>, and still sleeps and polls again instead of
  returning the error.
\<close>

theorem stale_elapsed_counterexample:
  "now (sent hanging_service [] (JStr ''r1'') closing) - 0 = 149
   \<and> max_duration \<le> now (sent hanging_service [] (JStr ''r1'') closing) - 0
   \<and> poll_once hanging_service [] (JStr ''r1'') 0 closing
       = (sleep hanging_service poll_interval (sent hanging_service [] (JStr ''r1'') closing),
          None)
   \<and> poll_loop hanging_service [] (JStr ''r1'') 0 closing
       = poll_loop hanging_service [] (JStr ''r1'') 0
           (sleep hanging_service poll_interval (sent hanging_service [] (JStr ''r1'') closing))"
proof -
  have r: "replies hanging_service (calls closing) = RequestError ''timed out''"
    by (simp add: hanging_service_def)
  have t: "now (sent hanging_service [] (JStr ''r1'') closing) - 0 = 149"
    by (simp add: sent_simps hanging_service_def closing_def)
  have d: "max_duration \<le> now (sent hanging_service [] (JStr ''r1'') closing) - 0"
    unfolding t by (simp add: max_duration_def)
  have once: "poll_once hanging_service [] (JStr ''r1'') 0 closing
       = (sleep hanging_service poll_interval (sent hanging_service [] (JStr ''r1'') closing),
          None)"
    using poll_once_request_error [OF r, of "[]" "JStr ''r1''" 0]
    by (simp add: closing_def max_duration_def)
  have again: "poll_loop hanging_service [] (JStr ''r1'') 0 closing
       = poll_loop hanging_service [] (JStr ''r1'') 0
           (sleep hanging_service poll_interval (sent hanging_service [] (JStr ''r1'') closing))"
    using once by (rule poll_loop_again)
  from t d once again show ?thesis by (intro conjI)
qed

text \<open>
  C5. A poll answered by an HTTP status error returns the API error text at once: the
  request is the only effect added to the trace, no sleep follows and no other request
  is sent, whatever the elapsed time.
\<close>

theorem status_error_immediate:
  assumes "replies E (calls w) = HTTPStatusError code body"
  shows "poll_loop E h rid t0 w = Some (sent E h rid w, Inr (api_error code body))
       \<and> trace (sent E h rid w) = trace w @ [Http (poll_request E h rid)]
       \<and> calls (sent E h rid w) = Suc (calls w)
       \<and> naps (sent E h rid w) = naps w"
  using assms by (simp add: poll_once_status_error poll_loop_return sent_simps)

theorem status_error_immediate_witness:
  "poll_loop (constant_service (HTTPStatusError 404 ''not found'')) [] (JStr ''r1'') 0 fresh
     = Some (sent (constant_service (HTTPStatusError 404 ''not found'')) [] (JStr ''r1'') fresh,
             Inr (Text ''API Error: 404 - not found''))
   \<and> trace (sent (constant_service (HTTPStatusError 404 ''not found'')) [] (JStr ''r1'') fresh)
     = [Http (poll_request (constant_service (HTTPStatusError 404 ''not found'')) [] (JStr ''r1''))]"
proof -
  let ?E = "constant_service (HTTPStatusError 404 ''not found'')"
  have a: "replies ?E (calls fresh) = HTTPStatusError 404 ''not found''"
    by (simp add: constant_service_simps)
  have b: "api_error 404 ''not found'' = Text ''API Error: 404 - not found''" by code_simp
  show ?thesis
    using status_error_immediate [OF a, of "[]" "JStr ''r1''" 0] b
    by (simp add: world_simps)
qed

section \<open>Normalising a polled body\<close>

text \<open>
  C6, as the code has it. The status of a body is lowercased and nothing else: it is not
  trimmed. A missing status reads as the empty string, which is not terminal, and the
  timeout payload reports it as \<open>pending\<close>. A string status that equals one of the
  four terminal words up to letter case returns the body. Every other status, one with
  surrounding whitespace included, counts as still processing: the poll sleeps and the
  loop goes on, or the timeout payload is returned once \<open>max_duration\<close> has elapsed.
\<close>

theorem status_lowercased_only:
  assumes "replies E (calls w) = Json (JObj data)"
  shows "(map_of data ''status'' = None \<longrightarrow>
            status_of (repr E) data = [] \<and> \<not> terminal (status_of (repr E) data)
            \<and> map_of (timeout_response data rid progress) ''status'' = Some (JStr ''pending''))
       \<and> (\<forall>s. map_of data ''status'' = Some (JStr s) \<longrightarrow> status_of (repr E) data = lower s)
       \<and> (\<forall>s t. map_of data ''status'' = Some (JStr s) \<and> terminal t \<and> lower s = lower t \<longrightarrow>
            poll_loop E h rid t0 w = Some (sent E h rid w, Inr (JsonText (JObj data))))
       \<and> (\<not> terminal (status_of (repr E) data) \<longrightarrow>
            poll_once E h rid t0 w =
              (if max_duration \<le> now w - t0
               then (sent E h rid w,
                     Some (Inr (JsonText (JObj (timeout_response data rid
                                                  (get_or data ''progress'' (JInt 0)))))))
               else (sleep E poll_interval (sent E h rid w), None)))"
proof (intro conjI allI impI)
  assume "map_of data ''status'' = None"
  then show "status_of (repr E) data = []" by (rule status_of_missing)
next
  assume "map_of data ''status'' = None"
  then show "\<not> terminal (status_of (repr E) data)"
    by (simp add: status_of_missing not_terminal_empty)
next
  assume "map_of data ''status'' = None"
  then show "map_of (timeout_response data rid progress) ''status'' = Some (JStr ''pending'')"
    by (simp add: timeout_response_def get_or_def)
next
  fix s assume "map_of data ''status'' = Some (JStr s)"
  then show "status_of (repr E) data = lower s" by (rule status_of_str)
next
  fix s t assume h: "map_of data ''status'' = Some (JStr s) \<and> terminal t \<and> lower s = lower t"
  then have "status_of (repr E) data = t" by (simp add: status_of_str lower_terminal)
  with h have "terminal (status_of (repr E) data)" by simp
  with assms show "poll_loop E h rid t0 w = Some (sent E h rid w, Inr (JsonText (JObj data)))"
    by (simp add: poll_once_terminal poll_loop_return)
next
  assume "\<not> terminal (status_of (repr E) data)"
  with assms show "poll_once E h rid t0 w =
              (if max_duration \<le> now w - t0
               then (sent E h rid w,
                     Some (Inr (JsonText (JObj (timeout_response data rid
                                                  (get_or data ''progress'' (JInt 0)))))))
               else (sleep E poll_interval (sent E h rid w), None))"
    by (rule poll_once_pending)
qed

theorem status_lowercased_only_witness:
  "status_of (repr (constant_service (Json (JObj [])))) [] = []
   \<and> poll_loop (constant_service (Json (JObj completed_body))) [] (JStr ''r1'') 0 fresh
       = Some (sent (constant_service (Json (JObj completed_body))) [] (JStr ''r1'') fresh,
               Inr (JsonText (JObj completed_body)))
   \<and> poll_once (constant_service (Json (JObj processing_body))) [] (JStr ''r1'') 0 fresh
       = (sleep (constant_service (Json (JObj processing_body))) poll_interval
            (sent (constant_service (Json (JObj processing_body))) [] (JStr ''r1'') fresh), None)"
proof -
  let ?E0 = "constant_service (Json (JObj []))"
  let ?E1 = "constant_service (Json (JObj completed_body))"
  let ?E2 = "constant_service (Json (JObj processing_body))"
  have a: "status_of (repr ?E0) [] = []"
    using status_lowercased_only [of ?E0 fresh "[]"] by (simp add: constant_service_simps)
  have s: "map_of completed_body ''status'' = Some (JStr ''Completed'')"
    by (simp add: completed_body_def)
  have t: "terminal ''completed''" by (simp add: terminal_def)
  have l: "lower ''Completed'' = lower ''completed''" by code_simp
  have b: "poll_loop ?E1 [] (JStr ''r1'') 0 fresh
       = Some (sent ?E1 [] (JStr ''r1'') fresh, Inr (JsonText (JObj completed_body)))"
    using status_lowercased_only [of ?E1 fresh completed_body] s t l
    by (simp add: constant_service_simps) blast
  have nt: "\<not> terminal (status_of (repr ?E2) processing_body)" by code_simp
  have c: "poll_once ?E2 [] (JStr ''r1'') 0 fresh
       = (sleep ?E2 poll_interval (sent ?E2 [] (JStr ''r1'') fresh), None)"
    using status_lowercased_only [of ?E2 fresh processing_body "JStr ''r1''" _ "[]" 0] nt
    by (simp add: constant_service_simps world_simps max_duration_def)
  show ?thesis using a b c by blast
qed

text \<open>
  C6 as stated fails on whitespace: a body whose status is \<open>success\<close> between two
  spaces, polled after the deadline, gives the timeout payload and not the body.
\<close>

theorem padded_status_counterexample:
  "poll_loop (constant_service (Json (JObj padded_body))) [] (JStr ''r1'') 0 late
     = Some (sent (constant_service (Json (JObj padded_body))) [] (JStr ''r1'') late,
             Inr (JsonText (JObj (timeout_response padded_body (JStr ''r1'') (JInt 0)))))
   \<and> JsonText (JObj (timeout_response padded_body (JStr ''r1'') (JInt 0)))
       \<noteq> JsonText (JObj padded_body)"
proof -
  let ?E = "constant_service (Json (JObj padded_body))"
  have nt: "\<not> terminal (status_of (repr ?E) padded_body)" by code_simp
  have "poll_once ?E [] (JStr ''r1'') 0 late
          = (sent ?E [] (JStr ''r1'') late,
             Some (Inr (JsonText (JObj (timeout_response padded_body (JStr ''r1'') (JInt 0))))))"
    using poll_once_pending [of ?E late padded_body "[]" "JStr ''r1''" 0] nt
    by (simp add: constant_service_simps world_simps max_duration_def get_or_def padded_body_def)
  then have "poll_loop ?E [] (JStr ''r1'') 0 late
     = Some (sent ?E [] (JStr ''r1'') late,
             Inr (JsonText (JObj (timeout_response padded_body (JStr ''r1'') (JInt 0)))))"
    by (rule poll_loop_return)
  moreover have "JsonText (JObj (timeout_response padded_body (JStr ''r1'') (JInt 0)))
       \<noteq> JsonText (JObj padded_body)"
    by (simp add: timeout_response_def padded_body_def)
  ultimately show ?thesis by (rule conjI)
qed

section \<open>Faults\<close>

text \<open>
  C7, as the code has it. Under a clock that does not run backwards the handler always
  comes back. Transport errors, status errors and bodies that are JSON objects end in an
  outcome. A body that is not JSON, or a JSON value that is not an object, is caught by
  no \<^verbatim>\<open>except\<close> clause: the exception of that poll (\<open>JSONDecodeError\<close> or
  \<open>AttributeError\<close>) leaves the handler, and every reply consumed before it was
  well-formed.
\<close>

theorem errors_become_outcomes:
  assumes "steady E"
  shows "\<exists>w' r. handle_smart_poll_result E p arguments w = Some (w', r)
          \<and> (\<forall>c. r = Inr c \<longrightarrow> calls w' = calls w \<or> raises (replies E (calls w' - 1)) = None)
          \<and> (\<forall>e. r = Inl e \<longrightarrow> calls w < calls w' \<and> raises (replies E (calls w' - 1)) = Some e)
          \<and> (\<forall>k. calls w \<le> k \<and> k < calls w' - 1 \<longrightarrow> raises (replies E k) = None)
          \<and> (truthy_str (get_api_key p) \<and> truthy (get arguments ''request_id'') \<longrightarrow>
                calls w < calls w')"
proof (cases "\<not> truthy_str (get_api_key p) \<or> \<not> truthy (get arguments ''request_id'')")
  case True
  then show ?thesis by (auto simp: handle_cases)
next
  case False
  let ?w1 = "sleep E 30 w"
  let ?h = "[(''x-api-key'', the (get_api_key p))]"
  let ?rid = "get arguments ''request_id''"
  from poll_loop_total [OF assms, of ?h ?rid "now ?w1" ?w1]
  obtain w' r where run: "poll_loop E ?h ?rid (now ?w1) ?w1 = Some (w', r)"
    and more: "calls ?w1 < calls w'"
    and res: "case raises (replies E (calls w' - 1)) of
                Some e \<Rightarrow> r = Inl e | None \<Rightarrow> (\<exists>c. r = Inr c)"
    and before: "\<forall>k. calls ?w1 \<le> k \<and> k < calls w' - 1 \<longrightarrow> raises (replies E k) = None"
    by blast
  have "handle_smart_poll_result E p arguments w = Some (w', r)"
    using False run by (simp add: handle_cases)
  moreover have "\<forall>c. r = Inr c \<longrightarrow> calls w' = calls w \<or> raises (replies E (calls w' - 1)) = None"
    using res by (auto split: option.splits)
  moreover have "\<forall>e. r = Inl e \<longrightarrow> calls w < calls w' \<and> raises (replies E (calls w' - 1)) = Some e"
    using res more by (auto simp: sleep_simps split: option.splits)
  moreover have "\<forall>k. calls w \<le> k \<and> k < calls w' - 1 \<longrightarrow> raises (replies E k) = None"
    using before by (simp add: sleep_simps)
  moreover have "calls w < calls w'" using more by (simp add: sleep_simps)
  ultimately show ?thesis by blast
qed

theorem errors_become_outcomes_witness:
  "steady (constant_service NotJson)
   \<and> (\<exists>w'. handle_smart_poll_result (constant_service NotJson) keyed r1_arguments fresh
              = Some (w', Inl JSONDecodeError))
   \<and> (\<exists>w' c. handle_smart_poll_result (constant_service (RequestError ''reset'')) keyed
                r1_arguments fresh = Some (w', Inr c))"
proof -
  let ?E = "constant_service NotJson"
  let ?F = "constant_service (RequestError ''reset'')"
  have st: "steady ?E" "steady ?F" by (simp_all add: steady_def constant_service_simps)
  have pre: "truthy_str (get_api_key keyed)" "truthy (get r1_arguments ''request_id'')"
    by (simp_all add: get_api_key_def keyed_def get_def get_or_def r1_arguments_def)
  have rE: "\<And>k. raises (replies ?E k) = Some JSONDecodeError"
    by (simp add: constant_service_simps)
  have rF: "\<And>k. raises (replies ?F k) = None"
    by (simp add: constant_service_simps)
  from errors_become_outcomes [OF st(1), of keyed r1_arguments fresh]
  obtain w' r where E: "handle_smart_poll_result ?E keyed r1_arguments fresh = Some (w', r)"
    "\<forall>c. r = Inr c \<longrightarrow> calls w' = calls fresh \<or> raises (replies ?E (calls w' - 1)) = None"
    "\<forall>e. r = Inl e \<longrightarrow> calls fresh < calls w' \<and> raises (replies ?E (calls w' - 1)) = Some e"
    "calls fresh < calls w'"
    using pre by blast
  have "r = Inl JSONDecodeError"
  proof (cases r)
    case (Inl e) then show ?thesis using E(3) rE by simp
  next
    case (Inr c) then show ?thesis using E(2,4) rE by simp
  qed
  then have a: "\<exists>w'. handle_smart_poll_result ?E keyed r1_arguments fresh = Some (w', Inl JSONDecodeError)"
    using E(1) by blast
  from errors_become_outcomes [OF st(2), of keyed r1_arguments fresh]
  obtain v' q where F: "handle_smart_poll_result ?F keyed r1_arguments fresh = Some (v', q)"
    "\<forall>e. q = Inl e \<longrightarrow> calls fresh < calls v' \<and> raises (replies ?F (calls v' - 1)) = Some e"
    by blast
  have "\<exists>c. q = Inr c" using F(2) rF by (cases q) simp_all
  then have b: "\<exists>w' c. handle_smart_poll_result ?F keyed r1_arguments fresh = Some (w', Inr c)"
    using F(1) by blast
  show ?thesis using st(1) a b by blast
qed

text \<open>
  C7 as stated fails on a body that is not JSON: the first poll raises
  \<open>JSONDecodeError\<close> out of the handler.
\<close>

theorem undecodable_body_counterexample:
  "handle_smart_poll_result (constant_service NotJson) keyed r1_arguments fresh
     = Some (sent (constant_service NotJson) [(''x-api-key'', ''secret'')] (JStr ''r1'')
               (sleep (constant_service NotJson) 30 fresh),
             Inl JSONDecodeError)"
proof -
  let ?E = "constant_service NotJson"
  have "poll_loop ?E [(''x-api-key'', ''secret'')] (JStr ''r1'') (now (sleep ?E 30 fresh))
          (sleep ?E 30 fresh)
        = Some (sent ?E [(''x-api-key'', ''secret'')] (JStr ''r1'') (sleep ?E 30 fresh),
                Inl JSONDecodeError)"
    by (rule poll_loop_return, rule poll_once_not_json) (simp add: constant_service_simps)
  then show ?thesis
    by (simp add: handle_cases get_api_key_def keyed_def get_def get_or_def r1_arguments_def)
qed

section \<open>Progress\<close>

text \<open>
  C8, as the code has it. A missing progress reads as 0; a progress that is present is
  passed on as it is, whatever its type, and never makes the poll fail. Whether a poll
  returns depends on the status and the elapsed time only: two object bodies with the
  same status binding lead to the same decision.
\<close>

theorem progress_passes_through:
  assumes "replies E (calls w) = Json (JObj data)"
      and "replies E' (calls w) = Json (JObj data')"
      and "repr E' = repr E"
      and "map_of data' ''status'' = map_of data ''status''"
  shows "(snd (poll_once E' h rid t0 w) = None) = (snd (poll_once E h rid t0 w) = None)
       \<and> (\<forall>e. snd (poll_once E h rid t0 w) \<noteq> Some (Inl e))
       \<and> (\<not> terminal (status_of (repr E) data) \<and> max_duration \<le> now w - t0 \<longrightarrow>
            poll_loop E h rid t0 w
              = Some (sent E h rid w,
                      Inr (JsonText (JObj (timeout_response data rid
                                             (get_or data ''progress'' (JInt 0))))))
            \<and> map_of (timeout_response data rid (get_or data ''progress'' (JInt 0))) ''progress''
                = Some (case map_of data ''progress'' of None \<Rightarrow> JInt 0 | Some v \<Rightarrow> v))"
proof (intro conjI allI impI)
  have "status_of (repr E') data' = status_of (repr E) data"
    using assms(3) status_of_cong [OF assms(4)] by simp
  then show "(snd (poll_once E' h rid t0 w) = None) = (snd (poll_once E h rid t0 w) = None)"
    using poll_once_decision [OF assms(1)] poll_once_decision [OF assms(2)] by simp
next
  fix e show "snd (poll_once E h rid t0 w) \<noteq> Some (Inl e)"
    using assms(1)
    by (cases "terminal (status_of (repr E) data)")
       (simp_all add: poll_once_terminal poll_once_pending)
next
  assume "\<not> terminal (status_of (repr E) data) \<and> max_duration \<le> now w - t0"
  then show "poll_loop E h rid t0 w
              = Some (sent E h rid w,
                      Inr (JsonText (JObj (timeout_response data rid
                                             (get_or data ''progress'' (JInt 0))))))"
    using assms(1) by (simp add: poll_once_pending poll_loop_return)
next
  show "map_of (timeout_response data rid (get_or data ''progress'' (JInt 0))) ''progress''
                = Some (case map_of data ''progress'' of None \<Rightarrow> JInt 0 | Some v \<Rightarrow> v)"
    by (simp add: timeout_response_def get_or_def)
qed

theorem progress_passes_through_witness:
  "((snd (poll_once (constant_service (Json (JObj odd_progress_body))) [] (JStr ''r1'') 0 late) = None)
     = (snd (poll_once (constant_service (Json (JObj processing_body))) [] (JStr ''r1'') 0 late) = None))
   \<and> poll_loop (constant_service (Json (JObj processing_body))) [] (JStr ''r1'') 0 late
       = Some (sent (constant_service (Json (JObj processing_body))) [] (JStr ''r1'') late,
               Inr (JsonText (JObj (timeout_response processing_body (JStr ''r1'') (JInt 0)))))
   \<and> map_of (timeout_response processing_body (JStr ''r1'') (JInt 0)) ''progress'' = Some (JInt 0)"
proof -
  let ?E = "constant_service (Json (JObj processing_body))"
  let ?E' = "constant_service (Json (JObj odd_progress_body))"
  have a: "replies ?E (calls late) = Json (JObj processing_body)"
    and b: "replies ?E' (calls late) = Json (JObj odd_progress_body)"
    and c: "repr ?E' = repr ?E"
    by (simp_all add: constant_service_def)
  have d: "map_of odd_progress_body ''status'' = map_of processing_body ''status''"
    by (simp add: odd_progress_body_def processing_body_def)
  have nt: "\<not> terminal (status_of (repr ?E) processing_body)" by code_simp
  have dl: "max_duration \<le> now late - 0" by (simp add: world_simps max_duration_def)
  have p: "get_or processing_body ''progress'' (JInt 0) = JInt 0"
    by (simp add: get_or_def processing_body_def)
  have m: "map_of processing_body ''progress'' = None" by (simp add: processing_body_def)
  note T = progress_passes_through [OF a b c d, of "[]" "JStr ''r1''" 0]
  have 1: "(snd (poll_once ?E' [] (JStr ''r1'') 0 late) = None)
             = (snd (poll_once ?E [] (JStr ''r1'') 0 late) = None)"
    using T by blast
  have 2: "poll_loop ?E [] (JStr ''r1'') 0 late
       = Some (sent ?E [] (JStr ''r1'') late,
               Inr (JsonText (JObj (timeout_response processing_body (JStr ''r1'') (JInt 0)))))"
    using T nt dl p by simp
  have 3: "map_of (timeout_response processing_body (JStr ''r1'') (JInt 0)) ''progress'' = Some (JInt 0)"
    using T nt dl p m by simp
  show ?thesis using 1 2 3 by blast
qed

text \<open>
  C8 as stated fails on the coercion: the progress \<open>abc\<close> of a body still processing
  after the deadline appears unchanged in the timeout payload, not as 0.
\<close>

theorem non_numeric_progress_counterexample:
  "poll_loop (constant_service (Json (JObj odd_progress_body))) [] (JStr ''r1'') 0 late
     = Some (sent (constant_service (Json (JObj odd_progress_body))) [] (JStr ''r1'') late,
             Inr (JsonText (JObj (timeout_response odd_progress_body (JStr ''r1'') (JStr ''abc'')))))
   \<and> map_of (timeout_response odd_progress_body (JStr ''r1'') (JStr ''abc'')) ''progress''
       = Some (JStr ''abc'')
   \<and> JStr ''abc'' \<noteq> JInt 0"
proof -
  let ?E = "constant_service (Json (JObj odd_progress_body))"
  have nt: "\<not> terminal (status_of (repr ?E) odd_progress_body)" by code_simp
  have "poll_once ?E [] (JStr ''r1'') 0 late
          = (sent ?E [] (JStr ''r1'') late,
             Some (Inr (JsonText (JObj (timeout_response odd_progress_body (JStr ''r1'') (JStr ''abc''))))))"
    using poll_once_pending [of ?E late odd_progress_body "[]" "JStr ''r1''" 0] nt
    by (simp add: constant_service_simps world_simps max_duration_def get_or_def
                  odd_progress_body_def)
  then have "poll_loop ?E [] (JStr ''r1'') 0 late
     = Some (sent ?E [] (JStr ''r1'') late,
             Inr (JsonText (JObj (timeout_response odd_progress_body (JStr ''r1'') (JStr ''abc'')))))"
    by (rule poll_loop_return)
  moreover have "map_of (timeout_response odd_progress_body (JStr ''r1'') (JStr ''abc'')) ''progress''
       = Some (JStr ''abc'')"
    by (simp add: timeout_response_def)
  ultimately show ?thesis by simp
qed

section \<open>Generation responses and the credential\<close>

text \<open>
  C9. On a flat payload whose keys are exactly \<open>request_id\<close>, \<open>status\<close>,
  \<open>result\<close> and \<open>progress\<close>, \<open>parse_generate_response\<close> keeps every field and
  applying it twice is applying it once. On a payload whose \<open>data\<close> is an object,
  each of the four fields the inner object has is taken from there, whatever the top
  level holds, and the outer status is kept under \<open>status_code\<close>.
\<close>

theorem parse_generate_response_shapes:
  "(fst ` set flat = {''request_id'', ''status'', ''result'', ''progress''} \<longrightarrow>
      (\<forall>k. map_of (parse_generate_response flat) k = map_of flat k)
      \<and> parse_generate_response (parse_generate_response flat) = parse_generate_response flat)
   \<and> (map_of data ''data'' = Some (JObj nested) \<longrightarrow>
      (\<forall>k v. k \<in> {''request_id'', ''status'', ''result'', ''progress''} \<and> map_of nested k = Some v
           \<longrightarrow> map_of (parse_generate_response data) k = Some v)
      \<and> map_of (parse_generate_response data) ''status_code'' = Some (get data ''status''))"
proof (intro conjI impI allI)
  assume keys: "fst ` set flat = {''request_id'', ''status'', ''result'', ''progress''}"
  from flat_keys_values [OF keys] obtain a b c d where
    vals: "map_of flat ''request_id'' = Some a" "map_of flat ''status'' = Some b"
          "map_of flat ''result'' = Some c" "map_of flat ''progress'' = Some d"
    by blast
  have nodata: "map_of flat ''data'' = None"
    by (rule flat_keys_others [OF keys]) simp_all
  note form = parse_flat [OF nodata vals]
  show "map_of (parse_generate_response flat) k = map_of flat k" for k
  proof (cases "k = ''request_id'' \<or> k = ''status'' \<or> k = ''result'' \<or> k = ''progress''")
    case True
    then show ?thesis using vals by (auto simp: form)
  next
    case False
    then have "map_of flat k = None" using flat_keys_others [OF keys, of k] by blast
    then show ?thesis using False by (simp add: form)
  qed
  show "parse_generate_response (parse_generate_response flat) = parse_generate_response flat"
    unfolding form by (rule parse_normal_form)
next
  fix k v
  assume nested: "map_of data ''data'' = Some (JObj nested)"
    and k: "k \<in> {''request_id'', ''status'', ''result'', ''progress''} \<and> map_of nested k = Some v"
  note form = parse_nested [OF nested]
  have found: "get_or nested k dflt = v" for dflt
    using k by (simp add: get_or_def)
  from k consider "k = ''request_id''" | "k = ''status''" | "k = ''result''" | "k = ''progress''"
    by blast
  then show "map_of (parse_generate_response data) k = Some v"
  proof cases
    case 1 then show ?thesis using found [of "get_or data ''request_id'' (JStr [])"] by (simp add: form)
  next
    case 2 then show ?thesis using found [of "JStr []"] by (simp add: form)
  next
    case 3 then show ?thesis using found [of "JStr []"] by (simp add: form)
  next
    case 4 then show ?thesis using found [of "JInt 0"] by (simp add: form)
  qed
next
  assume "map_of data ''data'' = Some (JObj nested)"
  then show "map_of (parse_generate_response data) ''status_code'' = Some (get data ''status'')"
    by (simp add: parse_nested)
qed

theorem parse_generate_response_shapes_witness:
  "map_of (parse_generate_response flat_payload) ''progress'' = map_of flat_payload ''progress''
   \<and> parse_generate_response (parse_generate_response flat_payload)
       = parse_generate_response flat_payload
   \<and> map_of (parse_generate_response nested_payload) ''request_id'' = Some (JStr ''inner'')
   \<and> map_of (parse_generate_response nested_payload) ''status'' = Some (JStr ''pending'')
   \<and> map_of (parse_generate_response nested_payload) ''status_code'' = Some (JInt 1)"
proof -
  let ?inner = "[(''request_id'', JStr ''inner''), (''status'', JStr ''pending''),
                 (''result'', JStr ''u''), (''progress'', JInt 7)]"
  have keys: "fst ` set flat_payload = {''request_id'', ''status'', ''result'', ''progress''}"
    unfolding flat_payload_def by (simp add: insert_commute)
  have nested: "map_of nested_payload ''data'' = Some (JObj ?inner)"
    by (simp add: nested_payload_def)
  have outer: "get nested_payload ''status'' = JInt 1"
    by (simp add: get_def get_or_def nested_payload_def)
  have i1: "''request_id'' \<in> {''request_id'', ''status'', ''result'', ''progress''}
            \<and> map_of ?inner ''request_id'' = Some (JStr ''inner'')" by simp
  have i2: "''status'' \<in> {''request_id'', ''status'', ''result'', ''progress''}
            \<and> map_of ?inner ''status'' = Some (JStr ''pending'')" by simp
  note T = parse_generate_response_shapes [of flat_payload nested_payload ?inner]
  from T keys have 1: "map_of (parse_generate_response flat_payload) ''progress''
                        = map_of flat_payload ''progress''"
    by blast
  from T keys have 2: "parse_generate_response (parse_generate_response flat_payload)
       = parse_generate_response flat_payload"
    by blast
  from T nested i1 have 3: "map_of (parse_generate_response nested_payload) ''request_id''
                        = Some (JStr ''inner'')"
    by blast
  from T nested i2 have 4: "map_of (parse_generate_response nested_payload) ''status''
                        = Some (JStr ''pending'')"
    by blast
  from T nested have "map_of (parse_generate_response nested_payload) ''status_code''
                        = Some (get nested_payload ''status'')"
    by blast
  then have 5: "map_of (parse_generate_response nested_payload) ''status_code'' = Some (JInt 1)"
    by (simp only: outer)
  from 1 2 3 4 5 show ?thesis by (intro conjI)
qed

text \<open>
  C10. A non-empty key stored by \<open>set_api_key\<close> is what \<open>get_api_key\<close> returns,
  whatever the environment holds; with no stored key, or an empty one, the result is the
  environment variable, \<open>None\<close> when it is unset. The four handlers that talk to the
  service send no other credential than this result, and the three that require a
  credential send nothing without it.
\<close>

theorem credential_resolution:
  "(key \<noteq> [] \<longrightarrow> get_api_key (set_api_key key p) = Some key)
   \<and> (\<not> truthy_str (api_key_var p) \<longrightarrow> get_api_key p = environ p ''ETERNAL_AI_API_KEY'')
   \<and> set (credentials (trace (fst (handle_get_visual_effects E p args w))))
        \<subseteq> insert (if truthy_str (get_api_key p) then get_api_key p else None)
             (set (credentials (trace w)))
   \<and> set (credentials (trace (fst (handle_generate_with_effect E p args w))))
        \<subseteq> insert (get_api_key p) (set (credentials (trace w)))
   \<and> set (credentials (trace (fst (handle_generate_custom_advanced E p args w))))
        \<subseteq> insert (get_api_key p) (set (credentials (trace w)))
   \<and> (\<forall>w' r. handle_smart_poll_result E p args w = Some (w', r) \<longrightarrow>
        set (credentials (trace w')) \<subseteq> insert (get_api_key p) (set (credentials (trace w))))
   \<and> (\<not> truthy_str (get_api_key p) \<longrightarrow>
        handle_generate_with_effect E p args w = (w, Inr api_key_required)
        \<and> handle_generate_custom_advanced E p args w = (w, Inr api_key_required)
        \<and> handle_smart_poll_result E p args w = Some (w, Inr api_key_required))"
proof (intro conjI impI allI)
  assume "key \<noteq> []"
  then show "get_api_key (set_api_key key p) = Some key"
    by (simp add: get_api_key_def set_api_key_def)
next
  assume "\<not> truthy_str (api_key_var p)"
  then show "get_api_key p = environ p ''ETERNAL_AI_API_KEY''"
    by (simp add: get_api_key_def)
next
  fix w' r assume "handle_smart_poll_result E p args w = Some (w', r)"
  then show "set (credentials (trace w')) \<subseteq> insert (get_api_key p) (set (credentials (trace w)))"
    by (rule smart_poll_credentials)
next
  assume "\<not> truthy_str (get_api_key p)"
  then show "handle_generate_with_effect E p args w = (w, Inr api_key_required)"
    by (rule no_key_no_request)
next
  assume "\<not> truthy_str (get_api_key p)"
  then show "handle_generate_custom_advanced E p args w = (w, Inr api_key_required)"
    by (rule no_key_no_request)
next
  assume "\<not> truthy_str (get_api_key p)"
  then show "handle_smart_poll_result E p args w = Some (w, Inr api_key_required)"
    by (rule no_key_no_request)
qed (rule visual_effects_credentials generate_with_effect_credentials
       generate_custom_credentials)+

theorem credential_resolution_witness:
  "get_api_key (set_api_key ''secret'' env_keyed) = Some ''secret''
   \<and> get_api_key env_keyed = Some ''from-env''
   \<and> get_api_key unkeyed = None
   \<and> set (credentials (trace (fst (handle_generate_with_effect (constant_service NotJson)
                                       keyed effect_arguments fresh))))
        \<subseteq> {Some ''secret''}
   \<and> handle_smart_poll_result (constant_service NotJson) unkeyed r1_arguments fresh
        = Some (fresh, Inr api_key_required)"
proof -
  have k: "''secret'' \<noteq> []" by simp
  have 1: "get_api_key (set_api_key ''secret'' env_keyed) = Some ''secret''"
    using credential_resolution [where key = "''secret''" and p = env_keyed] k by blast
  have e: "\<not> truthy_str (api_key_var env_keyed)"
          "environ env_keyed ''ETERNAL_AI_API_KEY'' = Some ''from-env''"
    by (simp_all add: env_keyed_def)
  have 2: "get_api_key env_keyed = Some ''from-env''"
    using credential_resolution [where p = env_keyed] e by metis
  have u: "\<not> truthy_str (api_key_var unkeyed)"
          "environ unkeyed ''ETERNAL_AI_API_KEY'' = None"
    by (simp_all add: unkeyed_def)
  have 3: "get_api_key unkeyed = None"
    using credential_resolution [where p = unkeyed] u by metis
  then have nk: "\<not> truthy_str (get_api_key unkeyed)" by simp
  have s: "get_api_key keyed = Some ''secret''"
    by (simp add: get_api_key_def keyed_def)
  have "set (credentials (trace (fst (handle_generate_with_effect (constant_service NotJson)
                                       keyed effect_arguments fresh))))
        \<subseteq> insert (get_api_key keyed) (set (credentials (trace fresh)))"
    using credential_resolution [where p = keyed and E = "constant_service NotJson"
                                   and args = effect_arguments and w = fresh]
    by blast
  then have 4: "set (credentials (trace (fst (handle_generate_with_effect (constant_service NotJson)
                                       keyed effect_arguments fresh))))
        \<subseteq> {Some ''secret''}"
    by (simp add: s world_simps)
  have 5: "handle_smart_poll_result (constant_service NotJson) unkeyed r1_arguments fresh
        = Some (fresh, Inr api_key_required)"
    using credential_resolution [where p = unkeyed and E = "constant_service NotJson"
                                   and args = r1_arguments and w = fresh] nk
    by blast
  from 1 2 3 4 5 show ?thesis by (intro conjI)
qed

end
